theory Spec2Isabelle
  imports Complex_Main "HOL-Library.Multiset"
begin

section \<open>Collision checking between planned and predicted paths\<close>

text \<open>
  A shallow embedding of \<^verbatim>\<open>collision_check.cpp\<close>. The class is a template over the
  scalar type \<^verbatim>\<open>T\<close>; the embedding instantiates it with the real numbers, so
  \<^verbatim>\<open>sqrt\<close>, \<^verbatim>\<open>pow(_, 2)\<close> and \<^verbatim>\<open>abs\<close> are the exact real square root, square and
  absolute value. Loop counters are \<^verbatim>\<open>int\<close> (32 bits, overflow is undefined behaviour),
  vector sizes are \<^verbatim>\<open>size_t\<close> (64 bits, unsigned, wrapping), and \<^verbatim>\<open>operator[]\<close> beyond
  the size of a vector is undefined behaviour. Undefined behaviour is a value of type
  \<open>error\<close>, and a function that meets it returns that value instead of a verdict.
\<close>

subsection \<open>Data model\<close>

record Point =
  x :: real
  y :: real

record DynamicObj =
  future_traj :: "Point list"
  radius :: real

datatype error = OutOfRange | SignedOverflow

subsection \<open>Machine integers\<close>

definition INT_MAX :: int where
  "INT_MAX = 2 ^ 31 - 1"

definition SIZE_MOD :: nat where
  "SIZE_MOD = 2 ^ 64"

text \<open>Conversion of an \<^verbatim>\<open>int\<close> to \<^verbatim>\<open>size_t\<close>, as the comparison \<^verbatim>\<open>i < v.size() - 1\<close> does.\<close>

definition size_t_of_int :: "int \<Rightarrow> nat" where
  "size_t_of_int i = nat (i mod int SIZE_MOD)"

text \<open>\<^verbatim>\<open>v.size() - 1\<close> in \<^verbatim>\<open>size_t\<close>: the size of an empty vector wraps to \<open>2 ^ 64 - 1\<close>.\<close>

definition size_minus_1 :: "'a list \<Rightarrow> nat" where
  "size_minus_1 v = (length v + SIZE_MOD - 1) mod SIZE_MOD"

text \<open>\<^verbatim>\<open>i + 1\<close> and \<^verbatim>\<open>i++\<close> on an \<^verbatim>\<open>int\<close>.\<close>

definition int_succ :: "int \<Rightarrow> error + int" where
  "int_succ i = (if i < INT_MAX then Inr (i + 1) else Inl SignedOverflow)"

text \<open>\<^verbatim>\<open>v[i]\<close> with an \<^verbatim>\<open>int\<close> index.\<close>

definition vec_at :: "'a list \<Rightarrow> int \<Rightarrow> error + 'a" where
  "vec_at v i = (let n = size_t_of_int i in if n < length v then Inr (v ! n) else Inl OutOfRange)"

text \<open>The pair \<^verbatim>\<open>v[i], v[i + 1]\<close> passed to \<^verbatim>\<open>Intersection\<close>.\<close>

definition segment_at :: "'a list \<Rightarrow> int \<Rightarrow> error + ('a \<times> 'a)" where
  "segment_at v i =
     (case vec_at v i of
        Inl e \<Rightarrow> Inl e
      | Inr p \<Rightarrow>
          (case int_succ i of
             Inl e \<Rightarrow> Inl e
           | Inr i' \<Rightarrow>
               (case vec_at v i' of
                  Inl e \<Rightarrow> Inl e
                | Inr q \<Rightarrow> Inr (p, q))))"

subsection \<open>Geometry kernel\<close>

definition eucliDist :: "Point \<Rightarrow> Point \<Rightarrow> real" where
  "eucliDist p1 p2 = sqrt ((x p1 - x p2) ^ 2 + (y p1 + y p2) ^ 2)"

text \<open>The locals \<^verbatim>\<open>denominator\<close>, \<^verbatim>\<open>t1\<close> and \<^verbatim>\<open>t2\<close> of \<^verbatim>\<open>Intersection\<close>.\<close>

definition denominator :: "Point \<Rightarrow> Point \<Rightarrow> Point \<Rightarrow> Point \<Rightarrow> real" where
  "denominator p1 p2 p3 p4 =
     (y p2 - y p1) * (x p4 - x p3) - (x p2 - x p1) * (y p4 - y p3)"

definition param_t1 :: "Point \<Rightarrow> Point \<Rightarrow> Point \<Rightarrow> Point \<Rightarrow> real" where
  "param_t1 p1 p2 p3 p4 =
     ((x p1 - x p3) * (y p4 - y p3) + (y p3 - y p1) * (x p4 - x p3))
       / denominator p1 p2 p3 p4"

definition param_t2 :: "Point \<Rightarrow> Point \<Rightarrow> Point \<Rightarrow> Point \<Rightarrow> real" where
  "param_t2 p1 p2 p3 p4 =
     ((x p1 - x p3) * (y p2 - y p1) + (y p3 - y p1) * (x p2 - x p1))
       / denominator p1 p2 p3 p4"

text \<open>Lines 82-83 (and 84-85): \<^verbatim>\<open>t = t < 0 ? 0 : t; t = t > 1 ? 1 : t;\<close>\<close>

definition clamp01 :: "real \<Rightarrow> real" where
  "clamp01 t = (let t' = (if t < 0 then 0 else t) in if t' > 1 then 1 else t')"

text \<open>Lines 87 and 88: the two clamped points, as the source builds them.\<close>

definition close_p1 :: "Point \<Rightarrow> Point \<Rightarrow> real \<Rightarrow> Point" where
  "close_p1 p1 p2 t1 =
     \<lparr>x = x p1 + (x p2 - x p1) * t1, y = y p1 + (y p2 - y p1) * t1\<rparr>"

definition close_p2 :: "Point \<Rightarrow> Point \<Rightarrow> Point \<Rightarrow> real \<Rightarrow> Point" where
  "close_p2 p1 p3 p4 t2 =
     \<lparr>x = x p3 + (x p4 - x p3) * t2, y = y p1 + (y p4 - y p3) * t2\<rparr>"

definition segments_intersect :: "real \<Rightarrow> real \<Rightarrow> bool" where
  "segments_intersect t1 t2 = (t1 \<ge> 0 \<and> t1 \<le> 1 \<and> t2 \<ge> 0 \<and> t2 \<le> 1)"

definition Intersection :: "Point \<Rightarrow> Point \<Rightarrow> Point \<Rightarrow> Point \<Rightarrow> real" where
  "Intersection p1 p2 p3 p4 =
     (if \<bar>denominator p1 p2 p3 p4 - 0\<bar> < 1 / 10 ^ 4 then eucliDist p1 p2
      else
        let t1 = param_t1 p1 p2 p3 p4;
            t2 = param_t2 p1 p2 p3 p4
        in if segments_intersect t1 t2 then 0
           else eucliDist (close_p1 p1 p2 (clamp01 t1)) (close_p2 p1 p3 p4 (clamp01 t2)))"

subsection \<open>Collision evaluator\<close>

text \<open>
  The body of the inner loop: fetch both segments, measure, compare. The parameter
  \<^verbatim>\<open>ego\<close> of \<^verbatim>\<open>collisionCheckBetweenTwoPaths\<close> is written \<open>eg\<close>; \<open>ego\<close> is the
  field of the scene below.
\<close>

definition pair_collides :: "DynamicObj \<Rightarrow> DynamicObj \<Rightarrow> real \<Rightarrow> int \<Rightarrow> int \<Rightarrow> error + bool" where
  "pair_collides obj eg safe_dist i j =
     (case segment_at (future_traj eg) i of
        Inl e \<Rightarrow> Inl e
      | Inr (a1, a2) \<Rightarrow>
          (case segment_at (future_traj obj) j of
             Inl e \<Rightarrow> Inl e
           | Inr (b1, b2) \<Rightarrow> Inr (Intersection a1 a2 b1 b2 < safe_dist)))"

text \<open>
  The inner loop from \<open>j\<close> on. \<open>Inr True\<close>: the function returned true;
  \<open>Inr False\<close>: the loop ran to its end.
\<close>

function inner_loop :: "DynamicObj \<Rightarrow> DynamicObj \<Rightarrow> real \<Rightarrow> int \<Rightarrow> int \<Rightarrow> error + bool" where
  "inner_loop obj eg safe_dist i j =
     (if size_t_of_int j < size_minus_1 (future_traj obj) then
        (case pair_collides obj eg safe_dist i j of
           Inl e \<Rightarrow> Inl e
         | Inr True \<Rightarrow> Inr True
         | Inr False \<Rightarrow>
             (if j < INT_MAX then inner_loop obj eg safe_dist i (j + 1)
              else Inl SignedOverflow))
      else Inr False)"
  by pat_completeness auto
termination
  by (relation "measure (\<lambda>(obj, eg, safe_dist, i, j). nat (INT_MAX - j))") auto

declare inner_loop.simps [simp del]

function outer_loop :: "DynamicObj \<Rightarrow> DynamicObj \<Rightarrow> real \<Rightarrow> int \<Rightarrow> error + bool" where
  "outer_loop obj eg safe_dist i =
     (if size_t_of_int i < size_minus_1 (future_traj eg) then
        (case inner_loop obj eg safe_dist i 0 of
           Inl e \<Rightarrow> Inl e
         | Inr True \<Rightarrow> Inr True
         | Inr False \<Rightarrow>
             (if i < INT_MAX then outer_loop obj eg safe_dist (i + 1)
              else Inl SignedOverflow))
      else Inr False)"
  by pat_completeness auto
termination
  by (relation "measure (\<lambda>(obj, eg, safe_dist, i). nat (INT_MAX - i))") auto

declare outer_loop.simps [simp del]

definition collisionCheckBetweenTwoPaths :: "DynamicObj \<Rightarrow> DynamicObj \<Rightarrow> error + bool" where
  "collisionCheckBetweenTwoPaths obj eg = outer_loop obj eg (radius eg + radius obj) 0"

record CollisionCheck =
  ego :: DynamicObj
  surroundings :: "DynamicObj list"

text \<open>The range-for over \<^verbatim>\<open>surroundings\<close>.\<close>

fun surroundings_loop :: "DynamicObj \<Rightarrow> DynamicObj list \<Rightarrow> error + bool" where
  "surroundings_loop eg [] = Inr False"
| "surroundings_loop eg (obj # rest) =
     (case collisionCheckBetweenTwoPaths obj eg of
        Inl e \<Rightarrow> Inl e
      | Inr True \<Rightarrow> Inr True
      | Inr False \<Rightarrow> surroundings_loop eg rest)"

definition collisionCheck :: "CollisionCheck \<Rightarrow> error + bool" where
  "collisionCheck s = surroundings_loop (ego s) (surroundings s)"

text \<open>The scene the constructor builds.\<close>

definition default_scene :: CollisionCheck where
  "default_scene =
     \<lparr>ego = \<lparr>future_traj = [\<lparr>x = 1, y = 2\<rparr>, \<lparr>x = 2, y = 3\<rparr>], radius = 0\<rparr>,
      surroundings =
        [\<lparr>future_traj = [\<lparr>x = 4, y = 5\<rparr>, \<lparr>x = 5, y = 6\<rparr>], radius = 0\<rparr>,
         \<lparr>future_traj = [\<lparr>x = 6, y = 7\<rparr>, \<lparr>x = 7, y = 8\<rparr>], radius = 0\<rparr>]\<rparr>"

subsection \<open>Test scenes\<close>

text \<open>The crossing trajectories: ego \<open>(0,0)-(1,1)\<close>, agent \<open>(0,1)-(1,0)\<close>.\<close>

definition crossing_ego :: "real \<Rightarrow> DynamicObj" where
  "crossing_ego r = \<lparr>future_traj = [\<lparr>x = 0, y = 0\<rparr>, \<lparr>x = 1, y = 1\<rparr>], radius = r\<rparr>"

definition crossing_agent :: "real \<Rightarrow> DynamicObj" where
  "crossing_agent r = \<lparr>future_traj = [\<lparr>x = 0, y = 1\<rparr>, \<lparr>x = 1, y = 0\<rparr>], radius = r\<rparr>"

text \<open>An agent whose trajectory has no waypoint.\<close>

definition empty_agent :: "real \<Rightarrow> DynamicObj" where
  "empty_agent r = \<lparr>future_traj = [], radius = r\<rparr>"

text \<open>
  Scenes around the crossing ego with radius 1: the colliding agent and an agent without
  waypoints, in both orders.
\<close>

definition collision_then_empty :: CollisionCheck where
  "collision_then_empty =
     \<lparr>ego = crossing_ego 1, surroundings = [crossing_agent 1, empty_agent 1]\<rparr>"

definition empty_then_collision :: CollisionCheck where
  "empty_then_collision =
     \<lparr>ego = crossing_ego 1, surroundings = [empty_agent 1, crossing_agent 1]\<rparr>"

section \<open>Properties\<close>

subsection \<open>Unfolding the loops\<close>

lemmas machine_defs = size_t_of_int_def size_minus_1_def SIZE_MOD_def INT_MAX_def int_succ_def
  vec_at_def segment_at_def

lemma inner_loop_exit:
  "\<not> size_t_of_int j < size_minus_1 (future_traj obj) \<Longrightarrow> inner_loop obj eg s i j = Inr False"
  by (subst inner_loop.simps) simp

lemma inner_loop_hit:
  "size_t_of_int j < size_minus_1 (future_traj obj) \<Longrightarrow> pair_collides obj eg s i j = Inr True
   \<Longrightarrow> inner_loop obj eg s i j = Inr True"
  by (subst inner_loop.simps) simp

lemma inner_loop_fail:
  "size_t_of_int j < size_minus_1 (future_traj obj) \<Longrightarrow> pair_collides obj eg s i j = Inl e
   \<Longrightarrow> inner_loop obj eg s i j = Inl e"
  by (subst inner_loop.simps) simp

lemma inner_loop_next:
  "size_t_of_int j < size_minus_1 (future_traj obj) \<Longrightarrow> pair_collides obj eg s i j = Inr False
   \<Longrightarrow> j < INT_MAX \<Longrightarrow> inner_loop obj eg s i j = inner_loop obj eg s i (j + 1)"
  by (subst inner_loop.simps) simp

lemma inner_loop_overflow:
  "size_t_of_int j < size_minus_1 (future_traj obj) \<Longrightarrow> pair_collides obj eg s i j = Inr False
   \<Longrightarrow> \<not> j < INT_MAX \<Longrightarrow> inner_loop obj eg s i j = Inl SignedOverflow"
  by (subst inner_loop.simps) simp

lemma outer_loop_exit:
  "\<not> size_t_of_int i < size_minus_1 (future_traj eg) \<Longrightarrow> outer_loop obj eg s i = Inr False"
  by (subst outer_loop.simps) simp

lemma outer_loop_hit:
  "size_t_of_int i < size_minus_1 (future_traj eg) \<Longrightarrow> inner_loop obj eg s i 0 = Inr True
   \<Longrightarrow> outer_loop obj eg s i = Inr True"
  by (subst outer_loop.simps) simp

lemma outer_loop_fail:
  "size_t_of_int i < size_minus_1 (future_traj eg) \<Longrightarrow> inner_loop obj eg s i 0 = Inl e
   \<Longrightarrow> outer_loop obj eg s i = Inl e"
  by (subst outer_loop.simps) simp

lemma outer_loop_next:
  "size_t_of_int i < size_minus_1 (future_traj eg) \<Longrightarrow> inner_loop obj eg s i 0 = Inr False
   \<Longrightarrow> i < INT_MAX \<Longrightarrow> outer_loop obj eg s i = outer_loop obj eg s (i + 1)"
  by (subst outer_loop.simps) simp

lemma outer_loop_overflow:
  "size_t_of_int i < size_minus_1 (future_traj eg) \<Longrightarrow> inner_loop obj eg s i 0 = Inr False
   \<Longrightarrow> \<not> i < INT_MAX \<Longrightarrow> outer_loop obj eg s i = Inl SignedOverflow"
  by (subst outer_loop.simps) simp

subsection \<open>The crossing scene\<close>

lemma crossing_distance:
  "Intersection \<lparr>x = 0, y = 0\<rparr> \<lparr>x = 1, y = 1\<rparr> \<lparr>x = 0, y = 1\<rparr> \<lparr>x = 1, y = 0\<rparr> = 0"
  by (simp add: Intersection_def segments_intersect_def denominator_def param_t1_def param_t2_def)

lemma crossing_pair:
  "pair_collides (crossing_agent r2) (crossing_ego r1) s 0 0 = Inr (0 < s)"
  by (simp add: pair_collides_def crossing_ego_def crossing_agent_def machine_defs
      crossing_distance)

lemma crossing_bounds:
  "size_minus_1 (future_traj (crossing_ego r)) = 1"
  "size_minus_1 (future_traj (crossing_agent r)) = 1"
  "size_t_of_int 0 = 0" "size_t_of_int 1 = 1" "0 < INT_MAX"
  by (simp_all add: crossing_ego_def crossing_agent_def machine_defs)

lemma crossing_result:
  "collisionCheckBetweenTwoPaths (crossing_agent r2) (crossing_ego r1) = Inr (0 < r1 + r2)"
proof (cases "0 < r1 + r2")
  case True
  then have "pair_collides (crossing_agent r2) (crossing_ego r1) (r1 + r2) 0 0 = Inr True"
    by (simp add: crossing_pair)
  then have "inner_loop (crossing_agent r2) (crossing_ego r1) (r1 + r2) 0 0 = Inr True"
    by (intro inner_loop_hit) (simp_all add: crossing_bounds)
  then have "outer_loop (crossing_agent r2) (crossing_ego r1) (r1 + r2) 0 = Inr True"
    by (intro outer_loop_hit) (simp_all add: crossing_bounds)
  with True show ?thesis
    by (simp add: collisionCheckBetweenTwoPaths_def crossing_ego_def crossing_agent_def)
next
  case False
  let ?a = "crossing_agent r2" and ?e = "crossing_ego r1"
  from False have miss: "pair_collides ?a ?e (r1 + r2) 0 0 = Inr False"
    by (simp add: crossing_pair)
  have "inner_loop ?a ?e (r1 + r2) 0 0 = inner_loop ?a ?e (r1 + r2) 0 (0 + 1)"
    by (intro inner_loop_next miss) (simp_all add: crossing_bounds)
  also have "\<dots> = Inr False"
    by (intro inner_loop_exit) (simp add: crossing_bounds)
  finally have inner: "inner_loop ?a ?e (r1 + r2) 0 0 = Inr False" .
  have "outer_loop ?a ?e (r1 + r2) 0 = outer_loop ?a ?e (r1 + r2) (0 + 1)"
    by (intro outer_loop_next inner) (simp_all add: crossing_bounds)
  also have "\<dots> = Inr False"
    by (intro outer_loop_exit) (simp add: crossing_bounds)
  finally have "outer_loop ?a ?e (r1 + r2) 0 = Inr False" .
  with False show ?thesis
    by (simp add: collisionCheckBetweenTwoPaths_def crossing_ego_def crossing_agent_def)
qed

subsection \<open>Properties of the geometry kernel\<close>

lemma eucliDist_is_distance_iff:
  "eucliDist p1 p2 = sqrt ((x p1 - x p2) ^ 2 + (y p1 - y p2) ^ 2) \<longleftrightarrow> y p1 * y p2 = 0"
proof -
  have "eucliDist p1 p2 = sqrt ((x p1 - x p2) ^ 2 + (y p1 - y p2) ^ 2) \<longleftrightarrow>
        (y p1 + y p2) ^ 2 = (y p1 - y p2) ^ 2"
    by (simp add: eucliDist_def)
  also have "\<dots> \<longleftrightarrow> y p1 * y p2 = 0"
    by (auto simp: power2_eq_square algebra_simps)
  finally show ?thesis .
qed

text \<open>
  C1. The point distance is claimed to be \<open>sqrt ((p1.x - p2.x)\<^sup>2 + (p1.y - p2.y)\<^sup>2)\<close>.
  The code squares the sum of the y-coordinates: the distance from \<open>(0,1)\<close> to itself
  comes out as 2, where the Euclidean distance is 0.
\<close>

theorem eucliDist_adds_y:
  "eucliDist \<lparr>x = 0, y = 1\<rparr> \<lparr>x = 0, y = 1\<rparr> = 2
   \<and> sqrt ((x \<lparr>x = 0, y = 1\<rparr> - x \<lparr>x = 0, y = 1\<rparr>) ^ 2
           + (y \<lparr>x = 0, y = 1\<rparr> - y \<lparr>x = 0, y = 1\<rparr>) ^ 2) = 0"
  by (simp add: eucliDist_def)

lemma clamped_example_params:
  "denominator \<lparr>x = 0, y = 0\<rparr> \<lparr>x = 1, y = 0\<rparr> \<lparr>x = 3, y = 1\<rparr> \<lparr>x = 3, y = 2\<rparr> = - 1"
  "param_t1 \<lparr>x = 0, y = 0\<rparr> \<lparr>x = 1, y = 0\<rparr> \<lparr>x = 3, y = 1\<rparr> \<lparr>x = 3, y = 2\<rparr> = 3"
  "param_t2 \<lparr>x = 0, y = 0\<rparr> \<lparr>x = 1, y = 0\<rparr> \<lparr>x = 3, y = 1\<rparr> \<lparr>x = 3, y = 2\<rparr> = - 1"
  by (simp_all add: denominator_def param_t1_def param_t2_def)

text \<open>
  C3. Outside the intersecting case both parameters are clamped and the result is claimed
  to be the Euclidean distance between \<open>p1 + d_A * t1\<close> and \<open>p3 + d_B * t2\<close>. The code
  builds the y-coordinate of the second point from \<open>p1.y\<close>. For the segment
  \<open>(0,0)-(1,0)\<close> against \<open>(3,1)-(3,2)\<close> the parameters are 3 and -1, clamped to 1 and 0;
  the clamped points are \<open>(1,0)\<close> and \<open>(3,1)\<close>, at distance \<open>sqrt 5\<close>; the code measures
  from \<open>(1,0)\<close> to \<open>(3,0)\<close> and returns 2.
\<close>

theorem Intersection_clamped_point_mixes_segments:
  "close_p1 \<lparr>x = 0, y = 0\<rparr> \<lparr>x = 1, y = 0\<rparr> (clamp01 3) = \<lparr>x = 1, y = 0\<rparr>
   \<and> close_p2 \<lparr>x = 0, y = 0\<rparr> \<lparr>x = 3, y = 1\<rparr> \<lparr>x = 3, y = 2\<rparr> (clamp01 (- 1)) = \<lparr>x = 3, y = 0\<rparr>
   \<and> Intersection \<lparr>x = 0, y = 0\<rparr> \<lparr>x = 1, y = 0\<rparr> \<lparr>x = 3, y = 1\<rparr> \<lparr>x = 3, y = 2\<rparr> = 2
   \<and> sqrt ((1 - 3) ^ 2 + (0 - 1) ^ 2) \<noteq> (2 :: real)"
proof -
  have "sqrt ((1 - 3) ^ 2 + (0 - 1) ^ 2) \<noteq> (2 :: real)"
  proof
    assume "sqrt ((1 - 3) ^ 2 + (0 - 1) ^ 2) = (2 :: real)"
    then have "sqrt 5 = sqrt 4" by simp
    then have "(5 :: real) = 4" by (simp only: real_sqrt_eq_iff)
    then show False by simp
  qed
  then show ?thesis
    by (simp add: Intersection_def clamped_example_params segments_intersect_def
        close_p1_def close_p2_def clamp01_def eucliDist_def)
qed

lemma denominator_swap: "denominator c d a b = - denominator a b c d"
  by (simp add: denominator_def algebra_simps)

lemma param_t1_swap: "param_t1 c d a b = param_t2 a b c d"
  by (simp add: param_t1_def param_t2_def denominator_swap [of c d a b] divide_simps)
    (simp add: algebra_simps)

lemma param_t2_swap: "param_t2 c d a b = param_t1 a b c d"
  by (simp add: param_t1_def param_t2_def denominator_swap [of c d a b] divide_simps)
    (simp add: algebra_simps)

text \<open>
  C4, as stated: the segment distance is symmetric in its two segments. For the parallel
  segments \<open>(0,0)-(1,0)\<close> and \<open>(0,0)-(2,0)\<close> the fallback returns the length of whichever
  segment comes first: 1 one way, 2 the other.
\<close>

theorem Intersection_not_symmetric:
  "Intersection \<lparr>x = 0, y = 0\<rparr> \<lparr>x = 1, y = 0\<rparr> \<lparr>x = 0, y = 0\<rparr> \<lparr>x = 2, y = 0\<rparr>
   \<noteq> Intersection \<lparr>x = 0, y = 0\<rparr> \<lparr>x = 2, y = 0\<rparr> \<lparr>x = 0, y = 0\<rparr> \<lparr>x = 1, y = 0\<rparr>"
proof -
  have "Intersection \<lparr>x = 0, y = 0\<rparr> \<lparr>x = 1, y = 0\<rparr> \<lparr>x = 0, y = 0\<rparr> \<lparr>x = 2, y = 0\<rparr> = 1"
    by (simp add: Intersection_def denominator_def eucliDist_def)
  moreover
  have "Intersection \<lparr>x = 0, y = 0\<rparr> \<lparr>x = 2, y = 0\<rparr> \<lparr>x = 0, y = 0\<rparr> \<lparr>x = 1, y = 0\<rparr> = 2"
    by (simp add: Intersection_def denominator_def eucliDist_def)
  ultimately show ?thesis by simp
qed

text \<open>
  C4, amended: when the denominator is not below epsilon and both solved parameters lie
  in \<open>[0, 1]\<close>, the segment distance is the same in both argument orders.
\<close>

theorem Intersection_symmetric_when_crossing:
  assumes "\<not> \<bar>denominator a1 a2 b1 b2\<bar> < 1 / 10 ^ 4"
    and "segments_intersect (param_t1 a1 a2 b1 b2) (param_t2 a1 a2 b1 b2)"
  shows "Intersection a1 a2 b1 b2 = Intersection b1 b2 a1 a2"
  using assms
  by (simp add: Intersection_def denominator_swap [of b1 b2 a1 a2]
      param_t1_swap [of b1 b2 a1 a2] param_t2_swap [of b1 b2 a1 a2] segments_intersect_def)

theorem Intersection_symmetric_when_crossing_witness:
  "\<not> \<bar>denominator \<lparr>x = 0, y = 0\<rparr> \<lparr>x = 2, y = 2\<rparr> \<lparr>x = 0, y = 2\<rparr> \<lparr>x = 2, y = 0\<rparr>\<bar> < 1 / 10 ^ 4
   \<and> segments_intersect
        (param_t1 \<lparr>x = 0, y = 0\<rparr> \<lparr>x = 2, y = 2\<rparr> \<lparr>x = 0, y = 2\<rparr> \<lparr>x = 2, y = 0\<rparr>)
        (param_t2 \<lparr>x = 0, y = 0\<rparr> \<lparr>x = 2, y = 2\<rparr> \<lparr>x = 0, y = 2\<rparr> \<lparr>x = 2, y = 0\<rparr>)
   \<and> Intersection \<lparr>x = 0, y = 0\<rparr> \<lparr>x = 2, y = 2\<rparr> \<lparr>x = 0, y = 2\<rparr> \<lparr>x = 2, y = 0\<rparr>
       = Intersection \<lparr>x = 0, y = 2\<rparr> \<lparr>x = 2, y = 0\<rparr> \<lparr>x = 0, y = 0\<rparr> \<lparr>x = 2, y = 2\<rparr>"
proof -
  have d: "\<not> \<bar>denominator \<lparr>x = 0, y = 0\<rparr> \<lparr>x = 2, y = 2\<rparr> \<lparr>x = 0, y = 2\<rparr> \<lparr>x = 2, y = 0\<rparr>\<bar> < 1 / 10 ^ 4"
    by (simp add: denominator_def)
  have t: "segments_intersect
        (param_t1 \<lparr>x = 0, y = 0\<rparr> \<lparr>x = 2, y = 2\<rparr> \<lparr>x = 0, y = 2\<rparr> \<lparr>x = 2, y = 0\<rparr>)
        (param_t2 \<lparr>x = 0, y = 0\<rparr> \<lparr>x = 2, y = 2\<rparr> \<lparr>x = 0, y = 2\<rparr> \<lparr>x = 2, y = 0\<rparr>)"
    by (simp add: segments_intersect_def param_t1_def param_t2_def denominator_def)
  from d t Intersection_symmetric_when_crossing [OF d t] show ?thesis by blast
qed

text \<open>
  C7. When the denominator is not below epsilon and both solved parameters lie in
  \<open>[0, 1]\<close>, the segment distance is exactly 0; so it is for \<open>(0,0)-(2,2)\<close> against
  \<open>(0,2)-(2,0)\<close>.
\<close>

theorem Intersection_zero_when_crossing:
  "(\<not> \<bar>denominator p1 p2 p3 p4\<bar> < 1 / 10 ^ 4
     \<and> 0 \<le> param_t1 p1 p2 p3 p4 \<and> param_t1 p1 p2 p3 p4 \<le> 1
     \<and> 0 \<le> param_t2 p1 p2 p3 p4 \<and> param_t2 p1 p2 p3 p4 \<le> 1
     \<longrightarrow> Intersection p1 p2 p3 p4 = 0)
   \<and> Intersection \<lparr>x = 0, y = 0\<rparr> \<lparr>x = 2, y = 2\<rparr> \<lparr>x = 0, y = 2\<rparr> \<lparr>x = 2, y = 0\<rparr> = 0"
  by (simp add: Intersection_def segments_intersect_def)
    (simp add: denominator_def param_t1_def param_t2_def)

theorem Intersection_zero_when_crossing_witness:
  "\<not> \<bar>denominator \<lparr>x = 0, y = 0\<rparr> \<lparr>x = 4, y = 0\<rparr> \<lparr>x = 1, y = - 1\<rparr> \<lparr>x = 1, y = 1\<rparr>\<bar> < 1 / 10 ^ 4
   \<and> param_t1 \<lparr>x = 0, y = 0\<rparr> \<lparr>x = 4, y = 0\<rparr> \<lparr>x = 1, y = - 1\<rparr> \<lparr>x = 1, y = 1\<rparr> = 1 / 4
   \<and> param_t2 \<lparr>x = 0, y = 0\<rparr> \<lparr>x = 4, y = 0\<rparr> \<lparr>x = 1, y = - 1\<rparr> \<lparr>x = 1, y = 1\<rparr> = 1 / 2
   \<and> Intersection \<lparr>x = 0, y = 0\<rparr> \<lparr>x = 4, y = 0\<rparr> \<lparr>x = 1, y = - 1\<rparr> \<lparr>x = 1, y = 1\<rparr> = 0"
  using Intersection_zero_when_crossing
    [of "\<lparr>x = 0, y = 0\<rparr>" "\<lparr>x = 4, y = 0\<rparr>" "\<lparr>x = 1, y = - 1\<rparr>" "\<lparr>x = 1, y = 1\<rparr>"]
  by (simp add: denominator_def param_t1_def param_t2_def)

text \<open>
  Below the epsilon threshold the result is the value of \<open>eucliDist\<close> on the first
  segment's endpoints, whatever the second segment is; that value is their Euclidean
  distance only when one of the two y-coordinates is 0.
\<close>

lemma Intersection_fallback_value:
  "\<bar>denominator a1 a2 b1 b2\<bar> < 1 / 10 ^ 4 \<Longrightarrow> Intersection a1 a2 b1 b2 = eucliDist a1 a2"
  by (simp add: Intersection_def)

lemma Intersection_fallback_is_distance_iff:
  assumes "\<bar>denominator a1 a2 b1 b2\<bar> < 1 / 10 ^ 4"
  shows "Intersection a1 a2 b1 b2 = sqrt ((x a1 - x a2) ^ 2 + (y a1 - y a2) ^ 2)
         \<longleftrightarrow> y a1 * y a2 = 0"
  by (simp only: Intersection_fallback_value [OF assms] eucliDist_is_distance_iff)

text \<open>
  C8. When the absolute value of the denominator is below \<open>1e-4\<close>, the segment distance
  is claimed to be the point distance between the first segment's own endpoints. For the
  parallel segments \<open>(1,2)-(2,3)\<close> and \<open>(4,5)-(5,6)\<close> of the constructor's scene the
  denominator is 0 and the endpoints \<open>(1,2)\<close> and \<open>(2,3)\<close> are at distance \<open>sqrt 2\<close>;
  the code returns \<open>sqrt 26\<close>, the y-coordinates being added.
\<close>

theorem Intersection_fallback_not_point_distance:
  "\<bar>denominator \<lparr>x = 1, y = 2\<rparr> \<lparr>x = 2, y = 3\<rparr> \<lparr>x = 4, y = 5\<rparr> \<lparr>x = 5, y = 6\<rparr>\<bar> < 1 / 10 ^ 4
   \<and> Intersection \<lparr>x = 1, y = 2\<rparr> \<lparr>x = 2, y = 3\<rparr> \<lparr>x = 4, y = 5\<rparr> \<lparr>x = 5, y = 6\<rparr> = sqrt 26
   \<and> sqrt ((x \<lparr>x = 1, y = 2\<rparr> - x \<lparr>x = 2, y = 3\<rparr>) ^ 2
           + (y \<lparr>x = 1, y = 2\<rparr> - y \<lparr>x = 2, y = 3\<rparr>) ^ 2) = sqrt 2
   \<and> sqrt 26 \<noteq> sqrt 2"
proof -
  have d: "\<bar>denominator \<lparr>x = 1, y = 2\<rparr> \<lparr>x = 2, y = 3\<rparr> \<lparr>x = 4, y = 5\<rparr> \<lparr>x = 5, y = 6\<rparr>\<bar> < 1 / 10 ^ 4"
    by (simp add: denominator_def)
  have v: "Intersection \<lparr>x = 1, y = 2\<rparr> \<lparr>x = 2, y = 3\<rparr> \<lparr>x = 4, y = 5\<rparr> \<lparr>x = 5, y = 6\<rparr> = sqrt 26"
    by (simp add: Intersection_fallback_value [OF d] eucliDist_def)
  have e: "sqrt ((x \<lparr>x = 1, y = 2\<rparr> - x \<lparr>x = 2, y = 3\<rparr>) ^ 2
           + (y \<lparr>x = 1, y = 2\<rparr> - y \<lparr>x = 2, y = 3\<rparr>) ^ 2) = sqrt 2"
    by simp
  have n: "sqrt 26 \<noteq> sqrt 2"
    by simp
  from d v e n show ?thesis by blast
qed

text \<open>
  C5, as stated: for the crossing trajectories the pairwise check reports a collision for
  every pair of non-negative radii, both radii 0 included. The segment distance is 0 and
  the comparison is strict, so with both radii 0 the check returns false.
\<close>

theorem crossing_zero_radii_no_collision:
  "collisionCheckBetweenTwoPaths (crossing_agent 0) (crossing_ego 0) = Inr False"
  using crossing_result [of 0 0] by simp

text \<open>
  C5, amended: for the crossing trajectories the pairwise check returns true exactly when
  the sum of the two radii is positive; so it does for all non-negative radii that are not
  both 0.
\<close>

theorem crossing_collision_iff_positive_sum:
  "collisionCheckBetweenTwoPaths (crossing_agent r2) (crossing_ego r1) = Inr (0 < r1 + r2)"
  by (rule crossing_result)

subsection \<open>Monotonicity in the safety distance\<close>

lemma pair_collides_traj:
  "future_traj obj' = future_traj obj \<Longrightarrow> future_traj eg' = future_traj eg
   \<Longrightarrow> pair_collides obj' eg' s i j = pair_collides obj eg s i j"
  unfolding pair_collides_def by (simp only:)

lemma pair_collides_mono:
  "pair_collides obj eg s i j = Inr b \<Longrightarrow> s \<le> s'
   \<Longrightarrow> \<exists>b'. pair_collides obj eg s' i j = Inr b' \<and> (b \<longrightarrow> b')"
  by (auto simp: pair_collides_def split: sum.splits prod.splits)

lemma pair_collides_mono':
  assumes "future_traj obj' = future_traj obj" "future_traj eg' = future_traj eg" "s \<le> s'"
    and "pair_collides obj eg s i j = Inr b"
  shows "\<exists>b'. pair_collides obj' eg' s' i j = Inr b' \<and> (b \<longrightarrow> b')"
  using pair_collides_mono [OF assms(4,3)] pair_collides_traj [OF assms(1,2), of s' i j] by simp

lemma inner_loop_mono:
  "future_traj obj' = future_traj obj \<Longrightarrow> future_traj eg' = future_traj eg \<Longrightarrow> s \<le> s'
   \<Longrightarrow> inner_loop obj eg s i j = Inr b
   \<Longrightarrow> \<exists>b'. inner_loop obj' eg' s' i j = Inr b' \<and> (b \<longrightarrow> b')"
proof (induction obj eg s i j rule: inner_loop.induct)
  case (1 obj eg s i j)
  note run = \<open>inner_loop obj eg s i j = Inr b\<close>
  note same = \<open>future_traj obj' = future_traj obj\<close> \<open>future_traj eg' = future_traj eg\<close>
  show ?case
  proof (cases "size_t_of_int j < size_minus_1 (future_traj obj)")
    case False
    then have "\<not> size_t_of_int j < size_minus_1 (future_traj obj')"
      by (simp add: same)
    then have "inner_loop obj' eg' s' i j = Inr False"
      by (rule inner_loop_exit)
    moreover have "b = False"
      using run inner_loop_exit [OF False, of eg s i] by simp
    ultimately show ?thesis by auto
  next
    case True
    then have True': "size_t_of_int j < size_minus_1 (future_traj obj')"
      by (simp add: same)
    obtain c where c: "pair_collides obj eg s i j = Inr c"
    proof (cases "pair_collides obj eg s i j")
      case (Inl e)
      from inner_loop_fail [OF True Inl] run show ?thesis by simp
    next
      case (Inr c)
      then show ?thesis by (rule that)
    qed
    obtain c' where c': "pair_collides obj' eg' s' i j = Inr c'" "c \<longrightarrow> c'"
      using pair_collides_mono' [OF same \<open>s \<le> s'\<close> c] by blast
    show ?thesis
    proof (cases c')
      case True
      with c' have "pair_collides obj' eg' s' i j = Inr True" by simp
      from inner_loop_hit [OF True' this] show ?thesis by auto
    next
      case False
      then have nc: "pair_collides obj eg s i j = Inr False"
        and nc': "pair_collides obj' eg' s' i j = Inr False"
        using c c' by simp_all
      have lt: "j < INT_MAX"
      proof (rule ccontr)
        assume "\<not> j < INT_MAX"
        from inner_loop_overflow [OF True nc this] run show False by simp
      qed
      have "inner_loop obj eg s i (j + 1) = Inr b"
        using inner_loop_next [OF True nc lt] run by simp
      from "1.IH" [OF True nc refl lt same \<open>s \<le> s'\<close> this]
      show ?thesis
        by (simp only: inner_loop_next [OF True' nc' lt])
    qed
  qed
qed

lemma outer_loop_mono:
  "future_traj obj' = future_traj obj \<Longrightarrow> future_traj eg' = future_traj eg \<Longrightarrow> s \<le> s'
   \<Longrightarrow> outer_loop obj eg s i = Inr b
   \<Longrightarrow> \<exists>b'. outer_loop obj' eg' s' i = Inr b' \<and> (b \<longrightarrow> b')"
proof (induction obj eg s i rule: outer_loop.induct)
  case (1 obj eg s i)
  note run = \<open>outer_loop obj eg s i = Inr b\<close>
  note same = \<open>future_traj obj' = future_traj obj\<close> \<open>future_traj eg' = future_traj eg\<close>
  show ?case
  proof (cases "size_t_of_int i < size_minus_1 (future_traj eg)")
    case False
    then have "\<not> size_t_of_int i < size_minus_1 (future_traj eg')"
      by (simp add: same)
    then have "outer_loop obj' eg' s' i = Inr False"
      by (rule outer_loop_exit)
    moreover have "b = False"
      using run outer_loop_exit [OF False, of obj s] by simp
    ultimately show ?thesis by auto
  next
    case True
    then have True': "size_t_of_int i < size_minus_1 (future_traj eg')"
      by (simp add: same)
    obtain c where c: "inner_loop obj eg s i 0 = Inr c"
    proof (cases "inner_loop obj eg s i 0")
      case (Inl e)
      from outer_loop_fail [OF True Inl] run show ?thesis by simp
    next
      case (Inr c)
      then show ?thesis by (rule that)
    qed
    obtain c' where c': "inner_loop obj' eg' s' i 0 = Inr c'" "c \<longrightarrow> c'"
      using inner_loop_mono [OF same \<open>s \<le> s'\<close> c] by blast
    show ?thesis
    proof (cases c')
      case True
      with c' have "inner_loop obj' eg' s' i 0 = Inr True" by simp
      from outer_loop_hit [OF True' this] show ?thesis by auto
    next
      case False
      then have nc: "inner_loop obj eg s i 0 = Inr False"
        and nc': "inner_loop obj' eg' s' i 0 = Inr False"
        using c c' by simp_all
      have lt: "i < INT_MAX"
      proof (rule ccontr)
        assume "\<not> i < INT_MAX"
        from outer_loop_overflow [OF True nc this] run show False by simp
      qed
      have "outer_loop obj eg s (i + 1) = Inr b"
        using outer_loop_next [OF True nc lt] run by simp
      from "1.IH" [OF True nc refl lt same \<open>s \<le> s'\<close> this]
      show ?thesis
        by (simp only: outer_loop_next [OF True' nc' lt])
    qed
  qed
qed

text \<open>
  C9. For fixed trajectories the pairwise check is monotonic in the combined safety
  radius: if it returns true when the radii sum to \<open>R\<close>, it returns true when they sum
  to any \<open>R' > R\<close>.
\<close>

theorem collisionCheckBetweenTwoPaths_radius_monotone:
  assumes "collisionCheckBetweenTwoPaths obj eg = Inr True"
    and "future_traj obj' = future_traj obj" and "future_traj eg' = future_traj eg"
    and "radius eg + radius obj < radius eg' + radius obj'"
  shows "collisionCheckBetweenTwoPaths obj' eg' = Inr True"
proof -
  have "radius eg + radius obj \<le> radius eg' + radius obj'"
    using assms(4) by simp
  from outer_loop_mono [OF assms(2,3) this, of 0 True] assms(1)
  show ?thesis by (auto simp: collisionCheckBetweenTwoPaths_def)
qed

theorem collisionCheckBetweenTwoPaths_radius_monotone_witness:
  "collisionCheckBetweenTwoPaths (crossing_agent (1 / 2)) (crossing_ego (1 / 2)) = Inr True
   \<and> future_traj (crossing_agent 2) = future_traj (crossing_agent (1 / 2))
   \<and> future_traj (crossing_ego 3) = future_traj (crossing_ego (1 / 2))
   \<and> radius (crossing_ego (1 / 2)) + radius (crossing_agent (1 / 2))
       < radius (crossing_ego 3) + radius (crossing_agent 2)
   \<and> collisionCheckBetweenTwoPaths (crossing_agent 2) (crossing_ego 3) = Inr True"
proof -
  have a: "collisionCheckBetweenTwoPaths (crossing_agent (1 / 2)) (crossing_ego (1 / 2)) = Inr True"
    by (simp add: crossing_result)
  have b: "future_traj (crossing_agent 2) = future_traj (crossing_agent (1 / 2))"
    by (simp add: crossing_agent_def)
  have c: "future_traj (crossing_ego 3) = future_traj (crossing_ego (1 / 2))"
    by (simp add: crossing_ego_def)
  have d: "radius (crossing_ego (1 / 2)) + radius (crossing_agent (1 / 2))
       < radius (crossing_ego 3) + radius (crossing_agent 2)"
    by (simp add: crossing_ego_def crossing_agent_def)
  from a b c d collisionCheckBetweenTwoPaths_radius_monotone [OF a b c d]
  show ?thesis by blast
qed

subsection \<open>Trajectories with fewer than two points\<close>

lemma size_t_of_int_0: "size_t_of_int 0 = 0"
  by (simp add: size_t_of_int_def)

lemma size_t_of_int_small: "0 \<le> i \<Longrightarrow> i \<le> INT_MAX \<Longrightarrow> size_t_of_int i = nat i"
  by (simp add: size_t_of_int_def SIZE_MOD_def INT_MAX_def)

lemma size_minus_1_Nil: "size_minus_1 [] = 2 ^ 64 - 1"
  by (simp add: size_minus_1_def SIZE_MOD_def)

lemma wrap_minus_1:
  fixes n m :: nat
  assumes "1 \<le> n" and "n \<le> m"
  shows "(n + m - 1) mod m = n - 1"
proof -
  have "n + m - 1 = (n - 1) + m"
    using assms(1) by arith
  then have "(n + m - 1) mod m = ((n - 1) + m) mod m"
    by (rule arg_cong)
  also have "\<dots> = (n - 1) mod m"
    by (rule mod_add_self2)
  also have "\<dots> = n - 1"
    using assms by (intro mod_less) arith
  finally show ?thesis .
qed

lemma size_minus_1_nonempty:
  assumes "1 \<le> length v" and "length v \<le> 2 ^ 64"
  shows "size_minus_1 v = length v - 1"
proof -
  have "length v \<le> SIZE_MOD"
    using assms(2) by (simp add: SIZE_MOD_def)
  with assms(1) show ?thesis
    unfolding size_minus_1_def by (rule wrap_minus_1)
qed

lemma size_minus_1_single: "length v = 1 \<Longrightarrow> size_minus_1 v = 0"
  by (simp add: size_minus_1_nonempty)

lemma size_minus_1_many:
  "2 \<le> length v \<Longrightarrow> length v < 2 ^ 64 \<Longrightarrow> size_minus_1 v = length v - 1"
  by (simp add: size_minus_1_nonempty)

lemma segment_at_Nil: "segment_at [] i = Inl OutOfRange"
  by (simp add: segment_at_def vec_at_def)

lemma segment_at_first:
  "2 \<le> length v \<Longrightarrow> segment_at v 0 = Inr (v ! 0, v ! 1)"
  by (cases v)
    (auto simp: segment_at_def vec_at_def int_succ_def INT_MAX_def size_t_of_int_def
      SIZE_MOD_def)

text \<open>An ego trajectory of one point: the outer loop is empty.\<close>

lemma single_point_ego:
  "length (future_traj eg) = 1 \<Longrightarrow> collisionCheckBetweenTwoPaths obj eg = Inr False"
  by (simp add: collisionCheckBetweenTwoPaths_def outer_loop_exit size_minus_1_single
      size_t_of_int_0)

text \<open>An agent trajectory of one point: every inner loop is empty.\<close>

lemma single_point_agent_outer:
  "length (future_traj obj) = 1 \<Longrightarrow> length (future_traj eg) \<le> 2 ^ 31 \<Longrightarrow> 1 \<le> length (future_traj eg)
   \<Longrightarrow> 0 \<le> i \<Longrightarrow> i \<le> INT_MAX \<Longrightarrow> outer_loop obj eg s i = Inr False"
proof (induction obj eg s i rule: outer_loop.induct)
  case (1 obj eg s i)
  have inner: "inner_loop obj eg s i 0 = Inr False"
    using "1.prems"(1) by (simp add: inner_loop_exit size_minus_1_single)
  show ?case
  proof (cases "size_t_of_int i < size_minus_1 (future_traj eg)")
    case False
    then show ?thesis by (rule outer_loop_exit)
  next
    case True
    have "size_minus_1 (future_traj eg) \<le> 2 ^ 31 - 1"
      using "1.prems"(2,3) by (simp add: size_minus_1_nonempty)
    with True have lt: "i < INT_MAX"
      using "1.prems"(4,5) by (simp add: size_t_of_int_small INT_MAX_def)
    have "outer_loop obj eg s (i + 1) = Inr False"
      using "1.IH" [OF True inner refl lt "1.prems"(1,2,3)] "1.prems"(4) lt by simp
    then show ?thesis
      by (simp only: outer_loop_next [OF True inner lt])
  qed
qed

lemma single_point_agent:
  "length (future_traj obj) = 1 \<Longrightarrow> 1 \<le> length (future_traj eg)
   \<Longrightarrow> length (future_traj eg) \<le> 2 ^ 31
   \<Longrightarrow> collisionCheckBetweenTwoPaths obj eg = Inr False"
  by (simp add: collisionCheckBetweenTwoPaths_def single_point_agent_outer INT_MAX_def)

text \<open>An agent trajectory of no point: the first inner iteration reads \<^verbatim>\<open>obj.future_traj[0]\<close>.\<close>

lemma empty_trajectory_agent:
  assumes "future_traj obj = []" and "length (future_traj eg) \<noteq> 1"
    and "length (future_traj eg) < 2 ^ 64"
  shows "collisionCheckBetweenTwoPaths obj eg = Inl OutOfRange"
proof -
  let ?s = "radius eg + radius obj"
  have pair: "pair_collides obj eg ?s 0 0 = Inl OutOfRange"
  proof (cases "future_traj eg = []")
    case True
    then show ?thesis by (simp add: pair_collides_def segment_at_Nil)
  next
    case False
    with assms(2) have "2 \<le> length (future_traj eg)"
      by (cases "future_traj eg") (simp_all add: Suc_le_eq)
    then show ?thesis
      by (simp add: pair_collides_def segment_at_first assms(1) segment_at_Nil)
  qed
  have "inner_loop obj eg ?s 0 0 = Inl OutOfRange"
    by (rule inner_loop_fail [OF _ pair]) (simp add: assms(1) size_minus_1_Nil size_t_of_int_0)
  moreover have "size_t_of_int 0 < size_minus_1 (future_traj eg)"
  proof (cases "future_traj eg = []")
    case True
    then show ?thesis by (simp add: size_minus_1_Nil size_t_of_int_0)
  next
    case False
    with assms(2) have "2 \<le> length (future_traj eg)"
      by (cases "future_traj eg") (simp_all add: Suc_le_eq)
    then show ?thesis
      using assms(3) by (simp add: size_minus_1_many size_t_of_int_0)
  qed
  ultimately show ?thesis
    by (simp add: collisionCheckBetweenTwoPaths_def outer_loop_fail)
qed

text \<open>An ego trajectory of no point: the bound of the outer loop wraps to \<open>2 ^ 64 - 1\<close>.\<close>

lemma empty_trajectory_ego:
  assumes "future_traj eg = []" and "length (future_traj obj) \<noteq> 1"
    and "length (future_traj obj) < 2 ^ 64"
  shows "collisionCheckBetweenTwoPaths obj eg = Inl OutOfRange"
proof -
  let ?s = "radius eg + radius obj"
  have pair: "pair_collides obj eg ?s 0 0 = Inl OutOfRange"
    by (simp add: pair_collides_def assms(1) segment_at_Nil)
  have "size_t_of_int 0 < size_minus_1 (future_traj obj)"
  proof (cases "future_traj obj = []")
    case True
    then show ?thesis by (simp add: size_minus_1_Nil size_t_of_int_0)
  next
    case False
    with assms(2) have "2 \<le> length (future_traj obj)"
      by (cases "future_traj obj") (simp_all add: Suc_le_eq)
    then show ?thesis
      using assms(3) by (simp add: size_minus_1_many size_t_of_int_0)
  qed
  then have "inner_loop obj eg ?s 0 0 = Inl OutOfRange"
    using pair by (rule inner_loop_fail)
  moreover have "size_t_of_int 0 < size_minus_1 (future_traj eg)"
    by (simp add: assms(1) size_minus_1_Nil size_t_of_int_0)
  ultimately show ?thesis
    by (simp add: collisionCheckBetweenTwoPaths_def outer_loop_fail)
qed

text \<open>
  An ego trajectory of no point against an agent of one point: every inner loop is empty
  and the counter \<^verbatim>\<open>i\<close> runs up to \<^verbatim>\<open>INT_MAX\<close>, where \<^verbatim>\<open>i++\<close> overflows.
\<close>

lemma empty_ego_single_agent_outer:
  "future_traj eg = [] \<Longrightarrow> length (future_traj obj) = 1 \<Longrightarrow> 0 \<le> i \<Longrightarrow> i \<le> INT_MAX
   \<Longrightarrow> outer_loop obj eg s i = Inl SignedOverflow"
proof (induction obj eg s i rule: outer_loop.induct)
  case (1 obj eg s i)
  have inner: "inner_loop obj eg s i 0 = Inr False"
    using "1.prems"(2) by (simp add: inner_loop_exit size_minus_1_single)
  have cond: "size_t_of_int i < size_minus_1 (future_traj eg)"
    using "1.prems"(1,3,4) by (simp add: size_t_of_int_small size_minus_1_Nil INT_MAX_def)
  show ?case
  proof (cases "i < INT_MAX")
    case True
    have "outer_loop obj eg s (i + 1) = Inl SignedOverflow"
      using "1.IH" [OF cond inner refl True "1.prems"(1,2)] "1.prems"(3) True by simp
    then show ?thesis
      by (simp only: outer_loop_next [OF cond inner True])
  next
    case False
    then show ?thesis by (rule outer_loop_overflow [OF cond inner])
  qed
qed

lemma empty_ego_single_agent:
  "future_traj eg = [] \<Longrightarrow> length (future_traj obj) = 1
   \<Longrightarrow> collisionCheckBetweenTwoPaths obj eg = Inl SignedOverflow"
  by (simp add: collisionCheckBetweenTwoPaths_def empty_ego_single_agent_outer INT_MAX_def)

text \<open>
  C2. With a trajectory of fewer than 2 points on either side the pairwise check is
  claimed to return false without reading out of range. For an ego trajectory of no
  point against the agent \<open>(0,1)-(1,0)\<close>, and for an agent of no point against the ego
  \<open>(0,0)-(1,1)\<close>, the code reads element 0 of the empty vector.
\<close>

theorem empty_trajectory_out_of_range:
  "collisionCheckBetweenTwoPaths (crossing_agent 0) (empty_agent 0) = Inl OutOfRange
   \<and> collisionCheckBetweenTwoPaths (empty_agent 0) (crossing_ego 0) = Inl OutOfRange"
proof
  show "collisionCheckBetweenTwoPaths (crossing_agent 0) (empty_agent 0) = Inl OutOfRange"
    by (rule empty_trajectory_ego) (simp_all add: empty_agent_def crossing_agent_def)
  show "collisionCheckBetweenTwoPaths (empty_agent 0) (crossing_ego 0) = Inl OutOfRange"
    by (rule empty_trajectory_agent) (simp_all add: empty_agent_def crossing_ego_def)
qed

subsection \<open>The scan over the surrounding agents\<close>

lemma surroundings_loop_no_failure:
  "\<forall>obj \<in> set objs. \<exists>b. collisionCheckBetweenTwoPaths obj eg = Inr b
   \<Longrightarrow> surroundings_loop eg objs
       = Inr (\<exists>obj \<in> set objs. collisionCheckBetweenTwoPaths obj eg = Inr True)"
proof (induction objs)
  case Nil
  then show ?case by simp
next
  case (Cons a objs)
  from Cons.prems obtain b where b: "collisionCheckBetweenTwoPaths a eg = Inr b"
    by auto
  from Cons have IH: "surroundings_loop eg objs
       = Inr (\<exists>obj \<in> set objs. collisionCheckBetweenTwoPaths obj eg = Inr True)"
    by simp
  show ?case
    by (cases b) (simp_all add: b IH)
qed

lemma surroundings_loop_short_circuit:
  "\<forall>obj \<in> set pre. collisionCheckBetweenTwoPaths obj eg = Inr False
   \<Longrightarrow> collisionCheckBetweenTwoPaths a eg = Inr True
   \<Longrightarrow> surroundings_loop eg (pre @ a # post) = Inr True"
  by (induction pre) simp_all

lemma surroundings_loop_true_iff:
  "surroundings_loop eg objs = Inr True \<longleftrightarrow>
     (\<exists>pre a post. objs = pre @ a # post
        \<and> (\<forall>obj \<in> set pre. collisionCheckBetweenTwoPaths obj eg = Inr False)
        \<and> collisionCheckBetweenTwoPaths a eg = Inr True)"
proof
  show "surroundings_loop eg objs = Inr True \<Longrightarrow>
     \<exists>pre a post. objs = pre @ a # post
        \<and> (\<forall>obj \<in> set pre. collisionCheckBetweenTwoPaths obj eg = Inr False)
        \<and> collisionCheckBetweenTwoPaths a eg = Inr True"
  proof (induction objs)
    case Nil
    then show ?case by simp
  next
    case (Cons o1 objs)
    show ?case
    proof (cases "collisionCheckBetweenTwoPaths o1 eg")
      case (Inl e)
      with Cons.prems show ?thesis by simp
    next
      case (Inr b)
      show ?thesis
      proof (cases b)
        case True
        with Inr have "o1 # objs = [] @ o1 # objs
            \<and> (\<forall>obj \<in> set []. collisionCheckBetweenTwoPaths obj eg = Inr False)
            \<and> collisionCheckBetweenTwoPaths o1 eg = Inr True"
          by simp
        then show ?thesis by blast
      next
        case False
        with Inr Cons.prems have "surroundings_loop eg objs = Inr True" by simp
        from Cons.IH [OF this] obtain pre a post where
          "objs = pre @ a # post"
          "\<forall>obj \<in> set pre. collisionCheckBetweenTwoPaths obj eg = Inr False"
          "collisionCheckBetweenTwoPaths a eg = Inr True"
          by blast
        with Inr False have "o1 # objs = (o1 # pre) @ a # post
            \<and> (\<forall>obj \<in> set (o1 # pre). collisionCheckBetweenTwoPaths obj eg = Inr False)
            \<and> collisionCheckBetweenTwoPaths a eg = Inr True"
          by simp
        then show ?thesis by blast
      qed
    qed
  qed
next
  assume "\<exists>pre a post. objs = pre @ a # post
        \<and> (\<forall>obj \<in> set pre. collisionCheckBetweenTwoPaths obj eg = Inr False)
        \<and> collisionCheckBetweenTwoPaths a eg = Inr True"
  then show "surroundings_loop eg objs = Inr True"
    using surroundings_loop_short_circuit by blast
qed

text \<open>On scenes where no pairwise check fails, the verdict is the disjunction.\<close>

lemma collisionCheck_no_failure:
  "\<forall>obj \<in> set (surroundings s). \<exists>b. collisionCheckBetweenTwoPaths obj (ego s) = Inr b
   \<Longrightarrow> collisionCheck s
       = Inr (\<exists>obj \<in> set (surroundings s). collisionCheckBetweenTwoPaths obj (ego s) = Inr True)"
  unfolding collisionCheck_def by (rule surroundings_loop_no_failure)

lemma collisionCheck_permutation_no_failure:
  assumes "\<forall>obj \<in> set (surroundings s). \<exists>b. collisionCheckBetweenTwoPaths obj (ego s) = Inr b"
    and "ego s' = ego s" and "mset (surroundings s') = mset (surroundings s)"
  shows "collisionCheck s' = collisionCheck s"
proof -
  have eq: "set (surroundings s') = set (surroundings s)"
    using assms(3) by (rule mset_eq_setD)
  with assms(1,2)
  have "\<forall>obj \<in> set (surroundings s'). \<exists>b. collisionCheckBetweenTwoPaths obj (ego s') = Inr b"
    by simp
  from collisionCheck_no_failure [OF this] collisionCheck_no_failure [OF assms(1)]
  show ?thesis by (simp add: eq assms(2))
qed

lemma collisionCheck_no_surroundings:
  "surroundings s = [] \<Longrightarrow> collisionCheck s = Inr False"
  by (simp add: collisionCheck_def)

lemma eucliDist_nonneg: "0 \<le> eucliDist p q"
  by (simp add: eucliDist_def)

lemma Intersection_nonneg: "0 \<le> Intersection a b c d"
  by (simp add: Intersection_def Let_def eucliDist_nonneg)

lemma default_scene_no_collision: "collisionCheck default_scene = Inr False"
proof -
  let ?e = "\<lparr>future_traj = [\<lparr>x = 1, y = 2\<rparr>, \<lparr>x = 2, y = 3\<rparr>], radius = 0\<rparr>"
  have far: "\<not> Intersection \<lparr>x = 1, y = 2\<rparr> \<lparr>x = 2, y = 3\<rparr> c d < 0" for c d
    using Intersection_nonneg [of "\<lparr>x = 1, y = 2\<rparr>" "\<lparr>x = 2, y = 3\<rparr>" c d] by simp
  have check: "collisionCheckBetweenTwoPaths \<lparr>future_traj = [c, d], radius = 0\<rparr> ?e = Inr False"
    for c d
  proof -
    let ?o = "\<lparr>future_traj = [c, d], radius = 0\<rparr>"
    have bounds: "size_minus_1 [a, b] = 1" "size_t_of_int 0 = 0" "size_t_of_int 1 = 1"
      "0 < INT_MAX" for a b :: Point
      by (simp_all add: machine_defs)
    have miss: "pair_collides ?o ?e 0 0 0 = Inr False"
      by (simp add: pair_collides_def machine_defs far)
    have "inner_loop ?o ?e 0 0 0 = inner_loop ?o ?e 0 0 (0 + 1)"
      by (intro inner_loop_next miss) (simp_all add: bounds)
    also have "\<dots> = Inr False"
      by (intro inner_loop_exit) (simp add: bounds)
    finally have inner: "inner_loop ?o ?e 0 0 0 = Inr False" .
    have "outer_loop ?o ?e 0 0 = outer_loop ?o ?e 0 (0 + 1)"
      by (intro outer_loop_next inner) (simp_all add: bounds)
    also have "\<dots> = Inr False"
      by (intro outer_loop_exit) (simp add: bounds)
    finally show ?thesis
      by (simp add: collisionCheckBetweenTwoPaths_def)
  qed
  show ?thesis
    by (simp add: collisionCheck_def default_scene_def check)
qed

text \<open>
  C6. The scene check is claimed to return true, for every scene, exactly when the
  pairwise check is true for at least one surrounding agent. In the scene whose first
  agent has no waypoint and whose second agent crosses the ego path, the pairwise check
  of the second agent is true, and the scan reads out of range on the first agent.
\<close>

theorem collisionCheck_fails_before_collision:
  "collisionCheckBetweenTwoPaths (crossing_agent 1) (ego empty_then_collision) = Inr True
   \<and> crossing_agent 1 \<in> set (surroundings empty_then_collision)
   \<and> collisionCheck empty_then_collision = Inl OutOfRange"
proof -
  have "collisionCheckBetweenTwoPaths (empty_agent 1) (crossing_ego 1) = Inl OutOfRange"
    by (rule empty_trajectory_agent) (simp_all add: empty_agent_def crossing_ego_def)
  then show ?thesis
    by (simp add: collisionCheck_def empty_then_collision_def crossing_result)
qed

text \<open>
  C10. The verdict is claimed to be the same for every order of the surrounding agents.
  With the colliding agent first the scan returns true before it reaches the agent
  without waypoints; with the two agents exchanged it reads out of range.
\<close>

theorem collisionCheck_depends_on_order:
  "ego collision_then_empty = ego empty_then_collision
   \<and> mset (surroundings collision_then_empty) = mset (surroundings empty_then_collision)
   \<and> collisionCheck collision_then_empty = Inr True
   \<and> collisionCheck empty_then_collision = Inl OutOfRange"
proof -
  have "collisionCheckBetweenTwoPaths (empty_agent 1) (crossing_ego 1) = Inl OutOfRange"
    by (rule empty_trajectory_agent) (simp_all add: empty_agent_def crossing_ego_def)
  then show ?thesis
    by (simp add: collisionCheck_def empty_then_collision_def collision_then_empty_def
        crossing_result)
qed

end
